theory Spec2Isabelle
  imports Main "HOL-Library.Char_ord" "HOL-Library.List_Lexorder"
begin

section \<open>Values, errors and validation rules\<close>

text \<open>
  The values that travel through \<^verbatim>\<open>schema_statistics.py\<close> are Python objects: the bound
  of a range check, the list of allowed values of a membership check. The model has
  integers and strings as scalars (Python's unbounded \<^verbatim>\<open>int\<close> and \<^verbatim>\<open>str\<close>) and flat lists
  of scalars (what \<^verbatim>\<open>categories.tolist()\<close> returns). Floating-point bounds are not
  modelled.
\<close>

datatype atom = AInt int | AStr string

datatype pyval = Atom atom | Seq "atom list"

text \<open>
  A \<^verbatim>\<open>Check\<close> object is known to this module by two attributes only: \<^verbatim>\<open>check.name\<close>
  (line 172) and \<^verbatim>\<open>check.statistics\<close>, a dict indexed by a string (lines 38, 40, 42).
\<close>

record check =
  name :: string
  statistics :: "string \<rightharpoonup> pyval"

text \<open>
  Exceptions are values. \<^verbatim>\<open>ValueError\<close> is the one raised at line 182; it is formatted
  from the two memoised checks and the two compared values. \<^verbatim>\<open>KeyError\<close> comes from
  indexing a dict with a missing key, \<^verbatim>\<open>TypeError\<close> from comparing values of different
  kinds or iterating \<^verbatim>\<open>None\<close>, \<^verbatim>\<open>AttributeError\<close> from reading a missing attribute.
\<close>

datatype error =
    KeyError string
  | TypeError
  | AttributeError
  | ValueError check check pyval pyval

text \<open>Python's \<^verbatim>\<open>d[k]\<close> on a dict.\<close>

definition getitem :: "(string \<rightharpoonup> 'v) \<Rightarrow> string \<Rightarrow> error + 'v" where
  "getitem d k = (case d k of None \<Rightarrow> Inl (KeyError k) | Some v \<Rightarrow> Inr v)"

text \<open>
  Python's \<^verbatim>\<open>a > b\<close>. Two integers compare numerically, two strings lexicographically by
  code point, two lists lexicographically: the first position where the elements are not
  equal decides, by the comparison of those two elements, and a proper prefix is the
  smaller list. Every other combination raises \<^verbatim>\<open>TypeError\<close>.
\<close>

fun atom_gt :: "atom \<Rightarrow> atom \<Rightarrow> error + bool" where
  "atom_gt (AInt a) (AInt b) = Inr (a > b)"
| "atom_gt (AStr a) (AStr b) = Inr (a > b)"
| "atom_gt (AInt a) (AStr b) = Inl TypeError"
| "atom_gt (AStr a) (AInt b) = Inl TypeError"

fun seq_gt :: "atom list \<Rightarrow> atom list \<Rightarrow> error + bool" where
  "seq_gt [] ys = Inr False"
| "seq_gt (x # xs) [] = Inr True"
| "seq_gt (x # xs) (y # ys) = (if x = y then seq_gt xs ys else atom_gt x y)"

fun py_gt :: "pyval \<Rightarrow> pyval \<Rightarrow> error + bool" where
  "py_gt (Atom a) (Atom b) = atom_gt a b"
| "py_gt (Seq xs) (Seq ys) = seq_gt xs ys"
| "py_gt (Atom a) (Seq ys) = Inl TypeError"
| "py_gt (Seq xs) (Atom b) = Inl TypeError"

section \<open>The check registry\<close>

text \<open>
  Modelled from the spec: the three \<^verbatim>\<open>Check\<close> constructors of \<^verbatim>\<open>pandera/checks.py\<close>, which
  is not part of the sources. A rule has a stable name identifying its kind, is built
  from one parameter and shows that parameter in its \<^verbatim>\<open>statistics\<close> view under a named
  field. The names are the \<^verbatim>\<open>__name__\<close> of the constructors, which key
  \<^verbatim>\<open>CHECKS_TO_STATISTICS\<close>; the field names are the ones its extractors read.
\<close>

definition greater_than_or_equal_to :: "pyval \<Rightarrow> check" where
  "greater_than_or_equal_to x =
     \<lparr>name = ''greater_than_or_equal_to'', statistics = [''min_value'' \<mapsto> x]\<rparr>"

definition less_than_or_equal_to :: "pyval \<Rightarrow> check" where
  "less_than_or_equal_to x =
     \<lparr>name = ''less_than_or_equal_to'', statistics = [''max_value'' \<mapsto> x]\<rparr>"

definition isin :: "pyval \<Rightarrow> check" where
  "isin x = \<lparr>name = ''isin'', statistics = [''allowed_values'' \<mapsto> x]\<rparr>"

text \<open>
  The idiom \<^verbatim>\<open>d if d else None\<close> of lines 61, 103, 115, 188 and 220: an empty dict or list
  is falsy.
\<close>

definition dict_or_None :: "('k \<rightharpoonup> 'v) \<Rightarrow> ('k \<rightharpoonup> 'v) option" where
  "dict_or_None d = (if d \<noteq> Map.empty then Some d else None)"

definition list_or_None :: "'a list \<Rightarrow> 'a list option" where
  "list_or_None xs = (if xs \<noteq> [] then Some xs else None)"

text \<open>
  The two tables, lines 30 to 43. A dict literal iterates in the order it is written, so
  the forward table is an association list; the reverse table is only looked up.
\<close>

definition STATISTICS_TO_CHECKS :: "(string \<times> (pyval \<Rightarrow> check)) list" where
  "STATISTICS_TO_CHECKS =
     [(''min'', \<lambda>x. greater_than_or_equal_to x),
      (''max'', \<lambda>x. less_than_or_equal_to x),
      (''levels'', \<lambda>x. isin x)]"

definition CHECKS_TO_STATISTICS :: "(string \<times> string \<times> (check \<Rightarrow> error + pyval)) list" where
  "CHECKS_TO_STATISTICS =
     [(''greater_than_or_equal_to'', (''min'', \<lambda>x. getitem (statistics x) ''min_value'')),
      (''less_than_or_equal_to'', (''max'', \<lambda>x. getitem (statistics x) ''max_value'')),
      (''isin'', (''levels'', \<lambda>x. getitem (statistics x) ''allowed_values''))]"

subsection \<open>From statistics to checks\<close>

text \<open>
  The loop of \<^verbatim>\<open>parse_check_statistics\<close>, lines 110 to 114: \<^verbatim>\<open>checks\<close> is the list built so
  far, the first argument what is left of \<^verbatim>\<open>STATISTICS_TO_CHECKS.items()\<close>.
\<close>

fun parse_check_statistics_loop ::
  "(string \<times> (pyval \<Rightarrow> check)) list \<Rightarrow> (string \<rightharpoonup> pyval) \<Rightarrow> check list \<Rightarrow> check list" where
  "parse_check_statistics_loop [] check_stats checks = checks"
| "parse_check_statistics_loop ((stat, create_check_fn) # rest) check_stats checks =
     (case check_stats stat of
        None \<Rightarrow> parse_check_statistics_loop rest check_stats checks
      | Some v \<Rightarrow> parse_check_statistics_loop rest check_stats (checks @ [create_check_fn v]))"

definition parse_check_statistics :: "(string \<rightharpoonup> pyval) option \<Rightarrow> check list option" where
  "parse_check_statistics check_stats =
     (case check_stats of
        None \<Rightarrow> None
      | Some d \<Rightarrow>
          list_or_None (parse_check_statistics_loop STATISTICS_TO_CHECKS d []))"

subsection \<open>From checks to statistics\<close>

text \<open>
  The loop of \<^verbatim>\<open>parse_checks\<close>, lines 170 to 175, on the pair of dicts
  \<^verbatim>\<open>(check_statistics, _check_memo)\<close>. A name missing from the reverse table gets the
  default \<^verbatim>\<open>(None, None)\<close> and the rule is skipped; an extractor that raises ends the loop.
\<close>

fun parse_checks_loop ::
  "check list \<Rightarrow> (string \<rightharpoonup> pyval) \<times> (string \<rightharpoonup> check)
     \<Rightarrow> error + ((string \<rightharpoonup> pyval) \<times> (string \<rightharpoonup> check))" where
  "parse_checks_loop [] acc = Inr acc"
| "parse_checks_loop (c # cs) (check_statistics, check_memo) =
     (case map_of CHECKS_TO_STATISTICS (name c) of
        None \<Rightarrow> parse_checks_loop cs (check_statistics, check_memo)
      | Some (stat_name, get_stat_fn) \<Rightarrow>
          (case get_stat_fn c of
             Inl e \<Rightarrow> Inl e
           | Inr v \<Rightarrow>
               parse_checks_loop cs
                 (check_statistics(stat_name \<mapsto> v), check_memo(stat_name \<mapsto> c))))"

text \<open>
  Lines 177 to 188. Inside the guard both keys are present, so the two \<^verbatim>\<open>.get\<close> calls
  return the stored values and their infinite defaults are never used; the pattern
  \<open>(Some min_value, Some max_value)\<close> is the guard and the two reads at once.
\<close>

definition parse_checks :: "check list \<Rightarrow> error + (string \<rightharpoonup> pyval) option" where
  "parse_checks checks =
     (case parse_checks_loop checks (Map.empty, Map.empty) of
        Inl e \<Rightarrow> Inl e
      | Inr (check_statistics, check_memo) \<Rightarrow>
          (let result = dict_or_None check_statistics
           in case (check_statistics ''min'', check_statistics ''max'') of
                (Some min_value, Some max_value) \<Rightarrow>
                  (case py_gt min_value max_value of
                     Inl e \<Rightarrow> Inl e
                   | Inr True \<Rightarrow>
                       (case getitem check_memo ''min'' of
                          Inl e \<Rightarrow> Inl e
                        | Inr cmin \<Rightarrow>
                            (case getitem check_memo ''max'' of
                               Inl e \<Rightarrow> Inl e
                             | Inr cmax \<Rightarrow> Inl (ValueError cmin cmax min_value max_value)))
                   | Inr False \<Rightarrow> Inr result)
              | _ \<Rightarrow> Inr result))"

text \<open>
  \<^verbatim>\<open>parse_checks(parse_check_statistics(S))\<close>: when the inner call returns \<^verbatim>\<open>None\<close>, the
  \<^verbatim>\<open>for\<close> statement of line 170 raises \<^verbatim>\<open>TypeError\<close>, as \<^verbatim>\<open>None\<close> is not iterable.
\<close>

definition round_trip :: "(string \<rightharpoonup> pyval) option \<Rightarrow> error + (string \<rightharpoonup> pyval) option" where
  "round_trip S =
     (case parse_check_statistics S of
        None \<Rightarrow> Inl TypeError
      | Some checks \<Rightarrow> parse_checks checks)"

section \<open>Inference from pandas objects\<close>

text \<open>
  \<^verbatim>\<open>PandasDtype\<close> is declared in \<^verbatim>\<open>pandera/dtypes.py\<close>, which is not part of the sources.
  The members this module names are listed (\<open>PInt\<close> is \<^verbatim>\<open>PandasDtype.Int\<close>); any other member is
  \<open>OtherDtype\<close> with its name.
\<close>

datatype PandasDtype =
    Float | Float16 | Float32 | Float64
  | PInt | Int8 | Int16 | Int32 | Int64
  | UInt8 | UInt16 | UInt32 | UInt64
  | DateTime | Object | Category
  | OtherDtype string

definition NUMERIC_DTYPES :: "PandasDtype set" where
  "NUMERIC_DTYPES =
     {Float, Float16, Float32, Float64, PInt, Int8, Int16, Int32, Int64,
      UInt8, UInt16, UInt32, UInt64, DateTime}"

text \<open>
  A pandas array (a series, or the values of one index level) as this module sees it:
  \<^verbatim>\<open>str(x.dtype)\<close>, the elements with \<open>None\<close> for a missing entry, \<^verbatim>\<open>x.cat.categories\<close>
  and \<^verbatim>\<open>x.categories\<close> as lists (\<open>None\<close> when reading the attribute raises
  \<^verbatim>\<open>AttributeError\<close>), and \<^verbatim>\<open>x.name\<close>.
\<close>

record array =
  dtype :: string
  vals :: "atom option list"
  cat_categories :: "atom list option"
  categories :: "atom list option"
  array_name :: "string option"

text \<open>
  What the module calls and does not define is a parameter of the model:
  \<^verbatim>\<open>PandasDtype.from_str_alias\<close> and \<^verbatim>\<open>PandasDtype.from_pandas_api_type\<close> (of
  \<^verbatim>\<open>pandera/dtypes.py\<close>, free to raise), and from pandas
  \<^verbatim>\<open>pd.api.types.infer_dtype(x, skipna)\<close>, \<^verbatim>\<open>x.min()\<close> and \<^verbatim>\<open>x.max()\<close>.
\<close>

record library =
  from_str_alias :: "string \<Rightarrow> error + PandasDtype"
  from_pandas_api_type :: "string \<Rightarrow> error + PandasDtype"
  infer_dtype :: "array \<Rightarrow> bool \<Rightarrow> string"
  array_min :: "array \<Rightarrow> pyval"
  array_max :: "array \<Rightarrow> pyval"

text \<open>\<^verbatim>\<open>x.isna().any()\<close>: some entry is missing.\<close>

definition isna_any :: "array \<Rightarrow> bool" where
  "isna_any x = (None \<in> set (vals x))"

text \<open>A comprehension whose body may raise stops at the first exception.\<close>

fun traverse :: "('a \<Rightarrow> error + 'b) \<Rightarrow> 'a list \<Rightarrow> error + 'b list" where
  "traverse f [] = Inr []"
| "traverse f (x # xs) =
     (case f x of
        Inl e \<Rightarrow> Inl e
      | Inr y \<Rightarrow> (case traverse f xs of Inl e \<Rightarrow> Inl e | Inr ys \<Rightarrow> Inr (y # ys)))"

text \<open>\<^verbatim>\<open>_get_array_type\<close>, lines 191 to 199.\<close>

definition get_array_type :: "library \<Rightarrow> array \<Rightarrow> error + PandasDtype" where
  "get_array_type lib x =
     (case from_str_alias lib (dtype x) of
        Inl e \<Rightarrow> Inl e
      | Inr dt \<Rightarrow>
          if dt = Object then from_pandas_api_type lib (infer_dtype lib x True)
          else Inr dt)"

text \<open>\<^verbatim>\<open>_get_array_check_statistics\<close>, lines 202 to 220.\<close>

definition get_array_check_statistics ::
  "library \<Rightarrow> array \<Rightarrow> PandasDtype \<Rightarrow> error + (string \<rightharpoonup> pyval) option" where
  "get_array_check_statistics lib x dt =
     (if dt \<in> NUMERIC_DTYPES \<or> dt = DateTime then
        Inr (dict_or_None [''min'' \<mapsto> array_min lib x, ''max'' \<mapsto> array_max lib x])
      else if dt = Category then
        (case cat_categories x of
           Some cs \<Rightarrow> Inr (dict_or_None [''levels'' \<mapsto> Seq cs])
         | None \<Rightarrow>
             (case categories x of
                Some cs \<Rightarrow> Inr (dict_or_None [''levels'' \<mapsto> Seq cs])
              | None \<Rightarrow> Inl AttributeError))
      else Inr (dict_or_None Map.empty))"

text \<open>
  The statistics of a column are a dict with the keys \<^verbatim>\<open>pandas_dtype\<close>, \<^verbatim>\<open>nullable\<close> and
  \<^verbatim>\<open>checks\<close>; those of a series or an index level have the key \<^verbatim>\<open>name\<close> as well. The
  type of the \<^verbatim>\<open>pandas_dtype\<close> entry is a parameter: inference stores a \<open>PandasDtype\<close>, a
  schema stores whatever it was declared with.
\<close>

record 'd column_statistics =
  pandas_dtype :: 'd
  nullable :: bool
  checks :: "(string \<rightharpoonup> pyval) option"

record 'd series_statistics = "'d column_statistics" +
  series_name :: "string option"

record 'd dataframe_statistics =
  columns :: "(string \<times> 'd column_statistics) list option"
  index :: "'d series_statistics list option"

text \<open>
  An index is a \<^verbatim>\<open>pd.MultiIndex\<close>, seen through \<^verbatim>\<open>get_level_values(i)\<close> for each level, a
  \<^verbatim>\<open>pd.Index\<close>, or an object of some other type, of which only \<^verbatim>\<open>type(index)\<close> is used.
  A data frame is its columns in iteration order, with distinct labels, and its index.
\<close>

datatype index_object = MultiIndex "array list" | Index array | NotAnIndex string

record dataframe =
  df_columns :: "(string \<times> array) list"
  df_index :: index_object

text \<open>
  \<^verbatim>\<open>infer_index_statistics\<close>, lines 77 to 103. \<^verbatim>\<open>warnings.warn\<close> is an effect: the function
  returns the warnings it emitted next to its value.
\<close>

definition index_stats :: "library \<Rightarrow> array \<Rightarrow> error + PandasDtype series_statistics" where
  "index_stats lib index_level =
     (case get_array_type lib index_level of
        Inl e \<Rightarrow> Inl e
      | Inr dt \<Rightarrow>
          (case get_array_check_statistics lib index_level dt of
             Inl e \<Rightarrow> Inl e
           | Inr cs \<Rightarrow>
               Inr \<lparr>pandas_dtype = dt, nullable = isna_any index_level, checks = cs,
                    series_name = array_name index_level\<rparr>))"

definition infer_index_statistics ::
  "library \<Rightarrow> index_object \<Rightarrow> error + string list \<times> PandasDtype series_statistics list option" where
  "infer_index_statistics lib idx =
     (case idx of
        MultiIndex levels \<Rightarrow>
          (case traverse (index_stats lib) levels of
             Inl e \<Rightarrow> Inl e
           | Inr index_statistics \<Rightarrow> Inr ([], list_or_None index_statistics))
      | Index x \<Rightarrow>
          (case index_stats lib x of
             Inl e \<Rightarrow> Inl e
           | Inr st \<Rightarrow> Inr ([], list_or_None [st]))
      | NotAnIndex ty \<Rightarrow>
          Inr ([''index type '' @ ty @ '' not recognized, skipping index inference''],
               list_or_None []))"

text \<open>
  \<^verbatim>\<open>infer_dataframe_statistics\<close>, lines 46 to 63: the types of all columns first, then the
  statistics of each column, then the index.
\<close>

definition infer_dataframe_statistics ::
  "library \<Rightarrow> dataframe \<Rightarrow> error + string list \<times> PandasDtype dataframe_statistics" where
  "infer_dataframe_statistics lib df =
     (case traverse (\<lambda>(col, x). case get_array_type lib x of
                                     Inl e \<Rightarrow> Inl e | Inr dt \<Rightarrow> Inr (col, x, dt))
             (df_columns df) of
        Inl e \<Rightarrow> Inl e
      | Inr inferred_column_dtypes \<Rightarrow>
          (case traverse (\<lambda>(col, x, dt). case get_array_check_statistics lib x dt of
                             Inl e \<Rightarrow> Inl e
                           | Inr cs \<Rightarrow>
                               Inr (col, \<lparr>pandas_dtype = dt, nullable = isna_any x, checks = cs\<rparr>))
                  inferred_column_dtypes of
             Inl e \<Rightarrow> Inl e
           | Inr column_statistics \<Rightarrow>
               (case infer_index_statistics lib (df_index df) of
                  Inl e \<Rightarrow> Inl e
                | Inr (warned, index_statistics) \<Rightarrow>
                    Inr (warned,
                         \<lparr>columns = list_or_None column_statistics,
                          index = index_statistics\<rparr>))))"

text \<open>\<^verbatim>\<open>infer_series_statistics\<close>, lines 66 to 74.\<close>

definition infer_series_statistics :: "library \<Rightarrow> array \<Rightarrow> error + PandasDtype series_statistics" where
  "infer_series_statistics lib series =
     (case get_array_type lib series of
        Inl e \<Rightarrow> Inl e
      | Inr dt \<Rightarrow>
          (case get_array_check_statistics lib series dt of
             Inl e \<Rightarrow> Inl e
           | Inr cs \<Rightarrow>
               Inr \<lparr>pandas_dtype = dt, nullable = isna_any series, checks = cs,
                    series_name = array_name series\<rparr>))"

section \<open>Statistics of a schema\<close>

text \<open>
  A schema component (a column, a series schema or one index) is read through four
  attributes. An index component either has the attribute \<^verbatim>\<open>indexes\<close> (a multi-index
  schema) or does not.
\<close>

record 'd series_schema_base =
  schema_pandas_dtype :: 'd
  schema_nullable :: bool
  schema_checks :: "check list"
  schema_name :: "string option"

datatype 'd index_schema_component =
    IndexSchema "'d series_schema_base"
  | MultiIndexSchema "'d series_schema_base list"

record 'd dataframe_schema =
  schema_columns :: "(string \<times> 'd series_schema_base) list"
  schema_index :: "'d index_schema_component option"

text \<open>\<^verbatim>\<open>_get_series_base_schema_statistics\<close>, lines 138 to 145.\<close>

definition get_series_base_schema_statistics ::
  "'d series_schema_base \<Rightarrow> error + 'd series_statistics" where
  "get_series_base_schema_statistics series_schema_base =
     (case parse_checks (schema_checks series_schema_base) of
        Inl e \<Rightarrow> Inl e
      | Inr cs \<Rightarrow>
          Inr \<lparr>pandas_dtype = schema_pandas_dtype series_schema_base,
               nullable = schema_nullable series_schema_base,
               checks = cs,
               series_name = schema_name series_schema_base\<rparr>)"

text \<open>\<^verbatim>\<open>get_index_schema_statistics\<close>, lines 148 to 158.\<close>

definition get_index_schema_statistics ::
  "'d index_schema_component \<Rightarrow> error + 'd series_statistics list" where
  "get_index_schema_statistics index_schema_component =
     (let index_components =
            (case index_schema_component of
               MultiIndexSchema indexes \<Rightarrow> indexes
             | IndexSchema component \<Rightarrow> [component])
      in traverse get_series_base_schema_statistics index_components)"

text \<open>\<^verbatim>\<open>get_series_schema_statistics\<close>, lines 161 to 163.\<close>

definition get_series_schema_statistics ::
  "'d series_schema_base \<Rightarrow> error + 'd series_statistics" where
  "get_series_schema_statistics series_schema = get_series_base_schema_statistics series_schema"

text \<open>
  \<^verbatim>\<open>get_dataframe_schema_statistics\<close>, lines 118 to 135. The dict of the columns and the
  list of the index are stored as they are built.
\<close>

definition get_dataframe_schema_statistics ::
  "'d dataframe_schema \<Rightarrow> error + 'd dataframe_statistics" where
  "get_dataframe_schema_statistics dataframe_schema =
     (case traverse (\<lambda>(col_name, column).
                        case parse_checks (schema_checks column) of
                          Inl e \<Rightarrow> Inl e
                        | Inr cs \<Rightarrow>
                            Inr (col_name,
                                 \<lparr>pandas_dtype = schema_pandas_dtype column,
                                  nullable = schema_nullable column,
                                  checks = cs\<rparr>))
             (schema_columns dataframe_schema) of
        Inl e \<Rightarrow> Inl e
      | Inr column_statistics \<Rightarrow>
          (case schema_index dataframe_schema of
             None \<Rightarrow> Inr \<lparr>columns = Some column_statistics, index = None\<rparr>
           | Some component \<Rightarrow>
               (case get_index_schema_statistics component of
                  Inl e \<Rightarrow> Inl e
                | Inr index_statistics \<Rightarrow>
                    Inr \<lparr>columns = Some column_statistics,
                         index = Some index_statistics\<rparr>)))"

section \<open>Properties of the registry\<close>

subsection \<open>Comparison\<close>

lemma atom_gt_refl: "atom_gt a a = Inr False"
  by (cases a) simp_all

lemma seq_gt_refl: "seq_gt xs xs = Inr False"
  by (induction xs) simp_all

lemma py_gt_refl: "py_gt v v = Inr False"
  by (cases v) (simp_all add: atom_gt_refl seq_gt_refl)

lemma atom_gt_error: "atom_gt a b = Inl e \<Longrightarrow> e = TypeError"
  by (cases a; cases b) simp_all

lemma seq_gt_error: "seq_gt xs ys = Inl e \<Longrightarrow> e = TypeError"
  by (induction xs ys rule: seq_gt.induct) (auto split: if_splits dest: atom_gt_error)

lemma py_gt_error: "py_gt x y = Inl e \<Longrightarrow> e = TypeError"
  by (cases x; cases y) (auto dest: atom_gt_error seq_gt_error)

subsection \<open>The tables\<close>

lemma CTS_lookup:
  "map_of CHECKS_TO_STATISTICS n =
     (if n = ''greater_than_or_equal_to''
        then Some (''min'', \<lambda>x. getitem (statistics x) ''min_value'')
      else if n = ''less_than_or_equal_to''
        then Some (''max'', \<lambda>x. getitem (statistics x) ''max_value'')
      else if n = ''isin''
        then Some (''levels'', \<lambda>x. getitem (statistics x) ''allowed_values'')
      else None)"
  by (simp add: CHECKS_TO_STATISTICS_def)

lemma CTS_names:
  "fst ` set CHECKS_TO_STATISTICS =
     {''greater_than_or_equal_to'', ''less_than_or_equal_to'', ''isin''}"
  by (simp add: CHECKS_TO_STATISTICS_def)




subsection \<open>Building checks\<close>

lemma pcs_loop_acc:
  "parse_check_statistics_loop tbl d acc =
     acc @ [create (the (d stat)). (stat, create) \<leftarrow> tbl, stat \<in> dom d]"
  by (induction tbl d acc rule: parse_check_statistics_loop.induct) (auto split: option.splits)

lemma built_checks:
  "[create (the (S stat)). (stat, create) \<leftarrow> STATISTICS_TO_CHECKS, stat \<in> dom S] =
     (case S ''min'' of None \<Rightarrow> [] | Some v \<Rightarrow> [greater_than_or_equal_to v]) @
     (case S ''max'' of None \<Rightarrow> [] | Some v \<Rightarrow> [less_than_or_equal_to v]) @
     (case S ''levels'' of None \<Rightarrow> [] | Some v \<Rightarrow> [isin v])"
  by (auto simp: STATISTICS_TO_CHECKS_def split: option.splits)

lemma parse_check_statistics_Some:
  "parse_check_statistics (Some S) =
     list_or_None
       ((case S ''min'' of None \<Rightarrow> [] | Some v \<Rightarrow> [greater_than_or_equal_to v]) @
        (case S ''max'' of None \<Rightarrow> [] | Some v \<Rightarrow> [less_than_or_equal_to v]) @
        (case S ''levels'' of None \<Rightarrow> [] | Some v \<Rightarrow> [isin v]))"
  unfolding parse_check_statistics_def pcs_loop_acc built_checks by simp

text \<open>
  Claim C4. \<^verbatim>\<open>parse_check_statistics\<close> maps \<^verbatim>\<open>None\<close> to \<^verbatim>\<open>None\<close>. For a mapping \<open>S\<close> it
  builds one rule for each entry of the forward table whose statistic name is a key of
  \<open>S\<close>, from the value stored there, in the order of the table, which is \<^verbatim>\<open>min\<close>, \<^verbatim>\<open>max\<close>,
  \<^verbatim>\<open>levels\<close>: an at-least rule, an at-most rule, a membership rule. When no rule was
  built the result is \<^verbatim>\<open>None\<close>, not the empty list.
\<close>

theorem parse_check_statistics_rules:
  "parse_check_statistics None = None
   \<and> map fst STATISTICS_TO_CHECKS = [''min'', ''max'', ''levels'']
   \<and> parse_check_statistics (Some S) =
       (let built =
              [create (the (S stat)). (stat, create) \<leftarrow> STATISTICS_TO_CHECKS, stat \<in> dom S]
        in if built = [] then None else Some built)
   \<and> [create (the (S stat)). (stat, create) \<leftarrow> STATISTICS_TO_CHECKS, stat \<in> dom S] =
       (case S ''min'' of None \<Rightarrow> [] | Some v \<Rightarrow> [greater_than_or_equal_to v]) @
       (case S ''max'' of None \<Rightarrow> [] | Some v \<Rightarrow> [less_than_or_equal_to v]) @
       (case S ''levels'' of None \<Rightarrow> [] | Some v \<Rightarrow> [isin v])"
proof -
  have a: "parse_check_statistics None = None"
    by (simp add: parse_check_statistics_def)
  have b: "map fst STATISTICS_TO_CHECKS = [''min'', ''max'', ''levels'']"
    by (simp add: STATISTICS_TO_CHECKS_def)
  have c: "parse_check_statistics (Some S) =
       (let built =
              [create (the (S stat)). (stat, create) \<leftarrow> STATISTICS_TO_CHECKS, stat \<in> dom S]
        in if built = [] then None else Some built)"
    unfolding parse_check_statistics_def pcs_loop_acc
    by (simp add: Let_def list_or_None_def)
  from a b c built_checks [of S] show ?thesis by (intro conjI)
qed

subsection \<open>The loop over the checks\<close>

lemma loop_append:
  "parse_checks_loop (xs @ ys) acc =
     (case parse_checks_loop xs acc of Inl e \<Rightarrow> Inl e | Inr acc' \<Rightarrow> parse_checks_loop ys acc')"
  by (induction xs acc rule: parse_checks_loop.induct) (auto split: option.splits sum.splits)

lemma loop_filter:
  "parse_checks_loop (filter (\<lambda>c. name c \<in> fst ` set CHECKS_TO_STATISTICS) cs) acc
     = parse_checks_loop cs acc"
proof (induction cs acc rule: parse_checks_loop.induct)
  case (1 acc)
  then show ?case by simp
next
  case (2 c cs st memo)
  show ?case
  proof (cases "map_of CHECKS_TO_STATISTICS (name c)")
    case None
    then have "name c \<notin> fst ` set CHECKS_TO_STATISTICS"
      by (simp add: map_of_eq_None_iff)
    with None 2(1) show ?thesis by simp
  next
    case (Some p)
    then have in_tbl: "name c \<in> fst ` set CHECKS_TO_STATISTICS"
      by (metis map_of_eq_None_iff option.distinct(1))
    obtain s g where p: "p = (s, g)" by (cases p)
    show ?thesis
    proof (cases "g c")
      case (Inl e)
      with Some p in_tbl show ?thesis by simp
    next
      case (Inr v)
      with Some p in_tbl 2(2)[OF Some[unfolded p] refl Inr] show ?thesis by simp
    qed
  qed
qed

lemma loop_unrecognised:
  "\<forall>c\<in>set cs. name c \<notin> fst ` set CHECKS_TO_STATISTICS \<Longrightarrow> parse_checks_loop cs acc = Inr acc"
proof (induction cs)
  case Nil
  then show ?case by simp
next
  case (Cons c cs)
  then have "map_of CHECKS_TO_STATISTICS (name c) = None"
    by (simp add: map_of_eq_None_iff)
  with Cons show ?case by (cases acc) simp
qed

lemma loop_keeps:
  "parse_checks_loop cs (st, memo) = Inr (st', memo') \<Longrightarrow>
   \<forall>d\<in>set cs. \<forall>g. map_of CHECKS_TO_STATISTICS (name d) \<noteq> Some (s, g) \<Longrightarrow>
   st' s = st s \<and> memo' s = memo s"
proof (induction cs "(st, memo)" arbitrary: st memo rule: parse_checks_loop.induct)
  case 1
  then show ?case by simp
next
  case (2 c cs st memo)
  show ?case
  proof (cases "map_of CHECKS_TO_STATISTICS (name c)")
    case None
    with 2 show ?thesis by simp
  next
    case (Some p)
    obtain s' g where p: "p = (s', g)" by (cases p)
    from 2(4) Some p have ne: "s' \<noteq> s" by auto
    from 2(3) Some p obtain v where v: "g c = Inr v"
      and rest: "parse_checks_loop cs (st(s' \<mapsto> v), memo(s' \<mapsto> c)) = Inr (st', memo')"
      by (auto split: sum.splits)
    from 2(2)[OF Some[unfolded p] refl v rest] 2(4) ne show ?thesis by simp
  qed
qed

lemma loop_error_is_KeyError:
  "parse_checks_loop cs acc = Inl e \<Longrightarrow> \<exists>k. e = KeyError k"
proof (induction cs acc rule: parse_checks_loop.induct)
  case 1
  then show ?case by simp
next
  case (2 c cs st memo)
  show ?case
  proof (cases "map_of CHECKS_TO_STATISTICS (name c)")
    case None
    with 2 show ?thesis by simp
  next
    case (Some p)
    obtain s g where p: "p = (s, g)" by (cases p)
    show ?thesis
    proof (cases "g c")
      case (Inl e')
      with 2(3) Some p have "e = e'" by simp
      moreover from Some p Inl have "\<exists>k. e' = KeyError k"
        by (auto simp: CTS_lookup getitem_def split: if_splits option.splits)
      ultimately show ?thesis by simp
    next
      case (Inr v)
      with 2(3) Some p 2(2)[OF Some[unfolded p] refl Inr] show ?thesis by simp
    qed
  qed
qed

lemma loop_ge:
  "parse_checks_loop (greater_than_or_equal_to v # cs) (st, memo) =
     parse_checks_loop cs (st(''min'' \<mapsto> v), memo(''min'' \<mapsto> greater_than_or_equal_to v))"
  by (simp add: CTS_lookup greater_than_or_equal_to_def getitem_def)

lemma loop_le:
  "parse_checks_loop (less_than_or_equal_to v # cs) (st, memo) =
     parse_checks_loop cs (st(''max'' \<mapsto> v), memo(''max'' \<mapsto> less_than_or_equal_to v))"
  by (simp add: CTS_lookup less_than_or_equal_to_def getitem_def)

lemma loop_isin:
  "parse_checks_loop (isin v # cs) (st, memo) =
     parse_checks_loop cs (st(''levels'' \<mapsto> v), memo(''levels'' \<mapsto> isin v))"
  by (simp add: CTS_lookup isin_def getitem_def)

lemma loop_ge_le:
  "parse_checks_loop [greater_than_or_equal_to x, less_than_or_equal_to y] (Map.empty, Map.empty)
     = Inr ([''min'' \<mapsto> x, ''max'' \<mapsto> y],
            [''min'' \<mapsto> greater_than_or_equal_to x, ''max'' \<mapsto> less_than_or_equal_to y])"
  by (simp add: loop_ge loop_le del: parse_checks_loop.simps(2))

text \<open>
  Claim C10. A rule whose name is not a key of the reverse table is ignored by
  \<^verbatim>\<open>parse_checks\<close>: removing all such rules from the sequence changes neither the
  statistics returned nor the exception raised. When no rule of the sequence is
  recognised, and so for the empty sequence, the result is \<^verbatim>\<open>None\<close>.
\<close>

theorem parse_checks_ignores_unrecognised:
  "parse_checks (filter (\<lambda>c. name c \<in> fst ` set CHECKS_TO_STATISTICS) rules)
     = parse_checks rules
   \<and> ((\<forall>c\<in>set rules. name c \<notin> fst ` set CHECKS_TO_STATISTICS)
        \<longrightarrow> parse_checks rules = Inr None)"
  by (simp add: parse_checks_def loop_filter loop_unrecognised dict_or_None_def)

theorem parse_checks_ignores_unrecognised_witness:
  "parse_checks [\<lparr>name = ''str_length'', statistics = [''min_value'' \<mapsto> Atom (AInt 1)]\<rparr>,
                 \<lparr>name = ''my_check'', statistics = Map.empty\<rparr>] = Inr None"
proof -
  have "\<forall>c\<in>set [\<lparr>name = ''str_length'', statistics = [''min_value'' \<mapsto> Atom (AInt 1)]\<rparr>,
                 \<lparr>name = ''my_check'', statistics = Map.empty\<rparr>].
          name c \<notin> fst ` set CHECKS_TO_STATISTICS"
    by (simp add: CTS_names)
  with parse_checks_ignores_unrecognised show ?thesis by blast
qed

text \<open>
  Claim C9. The comparison of line 181 is strict. When the loop has collected the same
  value for \<^verbatim>\<open>min\<close> and for \<^verbatim>\<open>max\<close>, \<^verbatim>\<open>parse_checks\<close> raises nothing and returns the
  collected statistics; so an at-least rule and an at-most rule with the bound 5 give
  \<^verbatim>\<open>{min: 5, max: 5}\<close>.
\<close>

theorem parse_checks_equal_bounds:
  assumes "parse_checks_loop rules (Map.empty, Map.empty) = Inr (check_statistics, check_memo)"
    and "check_statistics ''min'' = Some v"
    and "check_statistics ''max'' = Some v"
  shows "parse_checks rules = Inr (Some check_statistics)"
proof -
  from assms(2) have "check_statistics \<noteq> Map.empty" by auto
  with assms show ?thesis
    by (simp add: parse_checks_def py_gt_refl dict_or_None_def)
qed

theorem parse_checks_equal_bounds_witness:
  "parse_checks [greater_than_or_equal_to (Atom (AInt 5)), less_than_or_equal_to (Atom (AInt 5))]
     = Inr (Some [''min'' \<mapsto> Atom (AInt 5), ''max'' \<mapsto> Atom (AInt 5)])"
  by (rule parse_checks_equal_bounds [OF loop_ge_le]) simp_all

subsection \<open>Round trip\<close>

lemma loop_built:
  "\<exists>memo. parse_checks_loop
     ((case S ''min'' of None \<Rightarrow> [] | Some v \<Rightarrow> [greater_than_or_equal_to v]) @
      (case S ''max'' of None \<Rightarrow> [] | Some v \<Rightarrow> [less_than_or_equal_to v]) @
      (case S ''levels'' of None \<Rightarrow> [] | Some v \<Rightarrow> [isin v])) (Map.empty, Map.empty)
    = Inr (S |` {''min'', ''max'', ''levels''}, memo)"
proof -
  have r: "\<And>st. (\<And>k. st k = (if k \<in> {''min'', ''max'', ''levels''} then S k else None)) \<Longrightarrow>
            st = S |` {''min'', ''max'', ''levels''}"
    by (rule ext) (simp add: restrict_map_def)
  show ?thesis
    by (cases "S ''min''"; cases "S ''max''"; cases "S ''levels''")
       (auto simp: loop_ge loop_le loop_isin simp del: parse_checks_loop.simps(2) intro!: r)
qed

text \<open>
  Claim C1, as amended. Let \<open>S\<close> be a statistics mapping that is not empty, whose keys
  all lie in \<^verbatim>\<open>{min, max, levels}\<close> and in which \<^verbatim>\<open>min > max\<close>, when both are present,
  evaluates to false. Then decomposing the rules built from \<open>S\<close> returns \<open>S\<close>.
\<close>

theorem round_trip_statistics:
  assumes "dom S \<subseteq> {''min'', ''max'', ''levels''}"
    and "S \<noteq> Map.empty"
    and "\<forall>x y. S ''min'' = Some x \<longrightarrow> S ''max'' = Some y \<longrightarrow> py_gt x y = Inr False"
  shows "round_trip (Some S) = Inr (Some S)"
proof -
  let ?built = "(case S ''min'' of None \<Rightarrow> [] | Some v \<Rightarrow> [greater_than_or_equal_to v]) @
      (case S ''max'' of None \<Rightarrow> [] | Some v \<Rightarrow> [less_than_or_equal_to v]) @
      (case S ''levels'' of None \<Rightarrow> [] | Some v \<Rightarrow> [isin v])"
  from assms(2) obtain k where "S k \<noteq> None" by (auto simp: fun_eq_iff)
  with assms(1) have "k \<in> {''min'', ''max'', ''levels''}" by (auto simp: dom_def)
  with \<open>S k \<noteq> None\<close> have ne: "?built \<noteq> []" by auto
  then have built: "parse_check_statistics (Some S) = Some ?built"
    by (simp add: parse_check_statistics_Some list_or_None_def)
  have restr: "S |` {''min'', ''max'', ''levels''} = S"
  proof (rule ext)
    fix k
    show "(S |` {''min'', ''max'', ''levels''}) k = S k"
    proof (cases "k \<in> {''min'', ''max'', ''levels''}")
      case True
      then show ?thesis by simp
    next
      case False
      with assms(1) have "k \<notin> dom S" by blast
      then have "S k = None" by (simp add: domIff)
      with False show ?thesis by simp
    qed
  qed
  from loop_built[of S] restr obtain memo where
    loop: "parse_checks_loop ?built (Map.empty, Map.empty) = Inr (S, memo)" by auto
  have "parse_checks ?built = Inr (Some S)"
    using assms(2,3)
    by (auto simp: parse_checks_def loop dict_or_None_def Let_def split: option.splits)
  with built show ?thesis by (simp add: round_trip_def)
qed

theorem round_trip_statistics_witness:
  "round_trip (Some [''min'' \<mapsto> Atom (AInt 1), ''max'' \<mapsto> Atom (AInt 9),
                     ''levels'' \<mapsto> Seq [AStr ''a'', AStr ''b'']])
     = Inr (Some [''min'' \<mapsto> Atom (AInt 1), ''max'' \<mapsto> Atom (AInt 9),
                  ''levels'' \<mapsto> Seq [AStr ''a'', AStr ''b'']])"
proof (rule round_trip_statistics)
  show "dom [''min'' \<mapsto> Atom (AInt 1), ''max'' \<mapsto> Atom (AInt 9),
             ''levels'' \<mapsto> Seq [AStr ''a'', AStr ''b'']] \<subseteq> {''min'', ''max'', ''levels''}"
    by simp
  show "[''min'' \<mapsto> Atom (AInt 1), ''max'' \<mapsto> Atom (AInt 9),
         ''levels'' \<mapsto> Seq [AStr ''a'', AStr ''b'']] \<noteq> Map.empty"
    by simp
  show "\<forall>x y. [''min'' \<mapsto> Atom (AInt 1), ''max'' \<mapsto> Atom (AInt 9),
               ''levels'' \<mapsto> Seq [AStr ''a'', AStr ''b'']] ''min'' = Some x \<longrightarrow>
              [''min'' \<mapsto> Atom (AInt 1), ''max'' \<mapsto> Atom (AInt 9),
               ''levels'' \<mapsto> Seq [AStr ''a'', AStr ''b'']] ''max'' = Some y \<longrightarrow>
              py_gt x y = Inr False"
    by simp
qed

text \<open>
  The claim as it was stated fails twice. For \<^verbatim>\<open>{min: 10, max: 5}\<close> the two rules are
  built and \<^verbatim>\<open>parse_checks\<close> raises the \<^verbatim>\<open>ValueError\<close> of line 182. For the empty mapping
  \<^verbatim>\<open>parse_check_statistics\<close> returns \<^verbatim>\<open>None\<close>, which \<^verbatim>\<open>parse_checks\<close> cannot iterate.
\<close>

theorem round_trip_counterexample:
  "round_trip (Some [''min'' \<mapsto> Atom (AInt 10), ''max'' \<mapsto> Atom (AInt 5)])
     = Inl (ValueError (greater_than_or_equal_to (Atom (AInt 10)))
                       (less_than_or_equal_to (Atom (AInt 5)))
                       (Atom (AInt 10)) (Atom (AInt 5)))
   \<and> round_trip (Some Map.empty) = Inl TypeError"
proof -
  have "round_trip (Some Map.empty) = Inl TypeError"
    by (simp add: round_trip_def parse_check_statistics_Some list_or_None_def)
  moreover have
    "parse_check_statistics (Some [''min'' \<mapsto> Atom (AInt 10), ''max'' \<mapsto> Atom (AInt 5)])
       = Some [greater_than_or_equal_to (Atom (AInt 10)), less_than_or_equal_to (Atom (AInt 5))]"
    by (simp add: parse_check_statistics_Some list_or_None_def)
  moreover have
    "parse_checks [greater_than_or_equal_to (Atom (AInt 10)), less_than_or_equal_to (Atom (AInt 5))]
     = Inl (ValueError (greater_than_or_equal_to (Atom (AInt 10)))
                       (less_than_or_equal_to (Atom (AInt 5)))
                       (Atom (AInt 10)) (Atom (AInt 5)))"
    by (simp add: parse_checks_def loop_ge_le getitem_def del: parse_checks_loop.simps(2))
  ultimately show ?thesis by (simp add: round_trip_def)
qed

subsection \<open>Which rule is recorded\<close>

lemma loop_last:
  assumes "parse_checks_loop (before @ c # after) acc = Inr (st', memo')"
    and "map_of CHECKS_TO_STATISTICS (name c) = Some (s, g)"
    and "\<forall>d\<in>set after. \<forall>g'. map_of CHECKS_TO_STATISTICS (name d) \<noteq> Some (s, g')"
  shows "\<exists>v. g c = Inr v \<and> st' s = Some v \<and> memo' s = Some c"
proof -
  from assms(1) obtain st1 m1 where
    rest: "parse_checks_loop (c # after) (st1, m1) = Inr (st', memo')"
    by (auto simp: loop_append split: sum.splits)
  with assms(2) obtain v where v: "g c = Inr v"
    and after: "parse_checks_loop after (st1(s \<mapsto> v), m1(s \<mapsto> c)) = Inr (st', memo')"
    by (auto split: sum.splits)
  from loop_keeps[OF after assms(3)] v show ?thesis by simp
qed


lemma parse_checks_ValueError:
  assumes "parse_checks cs = Inl (ValueError a b x y)"
  shows "\<exists>st memo. parse_checks_loop cs (Map.empty, Map.empty) = Inr (st, memo)
           \<and> st ''min'' = Some x \<and> st ''max'' = Some y
           \<and> memo ''min'' = Some a \<and> memo ''max'' = Some b \<and> py_gt x y = Inr True"
proof (cases "parse_checks_loop cs (Map.empty, Map.empty)")
  case (Inl e)
  with assms have "e = ValueError a b x y" by (simp add: parse_checks_def)
  with loop_error_is_KeyError[OF Inl] show ?thesis by simp
next
  case (Inr p)
  obtain st memo where p: "p = (st, memo)" by (cases p)
  from assms Inr p show ?thesis
    by (auto simp: parse_checks_def Let_def getitem_def
             split: option.splits sum.splits bool.splits dest: py_gt_error)
qed



text \<open>
  Claim C5. Let \<open>c\<close> be a rule of the sequence that the reverse table maps to a
  statistic name, with no rule after it mapped to the same name (rules before it may
  be). If \<^verbatim>\<open>parse_checks\<close> returns, the result holds under that name the value extracted
  from \<open>c\<close>. If it raises the \<^verbatim>\<open>ValueError\<close> of line 182 and the name is \<^verbatim>\<open>min\<close> or
  \<^verbatim>\<open>max\<close>, the rule reported for that name is \<open>c\<close> and the value reported is the one
  extracted from \<open>c\<close>.
\<close>

theorem parse_checks_last_rule_wins:
  assumes "rules = before @ c # after"
    and "map_of CHECKS_TO_STATISTICS (name c) = Some (stat_name, get_stat_fn)"
    and "\<forall>d\<in>set after. \<forall>g. map_of CHECKS_TO_STATISTICS (name d) \<noteq> Some (stat_name, g)"
  shows "(\<forall>r. parse_checks rules = Inr r \<longrightarrow>
            (\<exists>st v. r = Some st \<and> get_stat_fn c = Inr v \<and> st stat_name = Some v))
       \<and> (\<forall>cmin cmax mn mx. parse_checks rules = Inl (ValueError cmin cmax mn mx) \<longrightarrow>
            (stat_name = ''min'' \<longrightarrow> cmin = c \<and> get_stat_fn c = Inr mn)
          \<and> (stat_name = ''max'' \<longrightarrow> cmax = c \<and> get_stat_fn c = Inr mx))"
proof -
  have ret: "\<exists>st v. r = Some st \<and> get_stat_fn c = Inr v \<and> st stat_name = Some v"
    if r: "parse_checks rules = Inr r" for r
  proof -
    from r obtain st memo where
      loop: "parse_checks_loop rules (Map.empty, Map.empty) = Inr (st, memo)"
      by (auto simp: parse_checks_def split: sum.splits)
    from loop_last[OF loop[unfolded assms(1)] assms(2,3)] obtain v where
      v: "get_stat_fn c = Inr v" "st stat_name = Some v" by blast
    then have "st \<noteq> Map.empty" by auto
    with r loop have "r = Some st"
      by (auto simp: parse_checks_def Let_def dict_or_None_def
               split: option.splits sum.splits bool.splits)
    with v show ?thesis by blast
  qed
  have raised: "(stat_name = ''min'' \<longrightarrow> cmin = c \<and> get_stat_fn c = Inr mn)
          \<and> (stat_name = ''max'' \<longrightarrow> cmax = c \<and> get_stat_fn c = Inr mx)"
    if e: "parse_checks rules = Inl (ValueError cmin cmax mn mx)" for cmin cmax mn mx
  proof -
    from parse_checks_ValueError[OF e] obtain st memo where
      loop: "parse_checks_loop rules (Map.empty, Map.empty) = Inr (st, memo)"
      and f: "st ''min'' = Some mn" "memo ''min'' = Some cmin"
             "st ''max'' = Some mx" "memo ''max'' = Some cmax" by blast
    from loop_last[OF loop[unfolded assms(1)] assms(2,3)] f show ?thesis by auto
  qed
  from ret raised show ?thesis by blast
qed

theorem parse_checks_last_rule_wins_witness:
  "(\<exists>st. parse_checks [greater_than_or_equal_to (Atom (AInt 1)),
                        greater_than_or_equal_to (Atom (AInt 7)),
                        less_than_or_equal_to (Atom (AInt 9))] = Inr (Some st)
         \<and> st ''min'' = Some (Atom (AInt 7)))
   \<and> (\<exists>cmax mx. parse_checks [greater_than_or_equal_to (Atom (AInt 1)),
                              greater_than_or_equal_to (Atom (AInt 7)),
                              less_than_or_equal_to (Atom (AInt 3))]
         = Inl (ValueError (greater_than_or_equal_to (Atom (AInt 7))) cmax (Atom (AInt 7)) mx))"
proof -
  let ?g = "\<lambda>x. getitem (statistics x) ''min_value''"
  let ?c = "greater_than_or_equal_to (Atom (AInt 7))"
  have tbl: "map_of CHECKS_TO_STATISTICS (name ?c) = Some (''min'', ?g)"
    by (simp add: CTS_lookup greater_than_or_equal_to_def)
  have val: "?g ?c = Inr (Atom (AInt 7))"
    by (simp add: getitem_def greater_than_or_equal_to_def)
  have after: "\<forall>d\<in>set [less_than_or_equal_to (Atom (AInt y))].
                 \<forall>g. map_of CHECKS_TO_STATISTICS (name d) \<noteq> Some (''min'', g)" for y
    by (simp add: CTS_lookup less_than_or_equal_to_def)
  let ?ok = "[greater_than_or_equal_to (Atom (AInt 1)), ?c, less_than_or_equal_to (Atom (AInt 9))]"
  let ?bad = "[greater_than_or_equal_to (Atom (AInt 1)), ?c, less_than_or_equal_to (Atom (AInt 3))]"
  have ok: "\<exists>r. parse_checks ?ok = Inr r"
    by (simp add: parse_checks_def loop_ge loop_le del: parse_checks_loop.simps(2))
  have bad: "\<exists>cmin cmax mn mx. parse_checks ?bad = Inl (ValueError cmin cmax mn mx)"
    by (simp add: parse_checks_def loop_ge loop_le getitem_def del: parse_checks_loop.simps(2))
  have split_ok: "?ok = [greater_than_or_equal_to (Atom (AInt 1))] @ ?c # [less_than_or_equal_to (Atom (AInt 9))]"
    by simp
  have split_bad: "?bad = [greater_than_or_equal_to (Atom (AInt 1))] @ ?c # [less_than_or_equal_to (Atom (AInt 3))]"
    by simp
  from parse_checks_last_rule_wins [OF split_ok tbl after] ok val
  have one: "\<exists>st. parse_checks ?ok = Inr (Some st) \<and> st ''min'' = Some (Atom (AInt 7))"
    by auto
  from parse_checks_last_rule_wins [OF split_bad tbl after] bad val
  have two: "\<exists>cmax mx. parse_checks ?bad = Inl (ValueError ?c cmax (Atom (AInt 7)) mx)"
    by auto
  from one two show ?thesis by blast
qed






section \<open>Properties of inference and of schema statistics\<close>

lemma traverse_Inr_map:
  "traverse f xs = Inr ys \<Longrightarrow> map f xs = map Inr ys"
  by (induction xs arbitrary: ys) (auto split: sum.splits)

lemma traverse_total:
  "\<forall>x\<in>set xs. \<exists>y. f x = Inr y \<Longrightarrow> \<exists>ys. traverse f xs = Inr ys"
  by (induction xs) auto

lemma Category_not_numeric: "Category \<notin> NUMERIC_DTYPES" "Category \<noteq> DateTime"
  by (simp_all add: NUMERIC_DTYPES_def)

text \<open>
  The witnesses below run the model on an instance of the parameters: the aliases
  \<^verbatim>\<open>object\<close>, \<^verbatim>\<open>int64\<close> and \<^verbatim>\<open>category\<close>, the label \<^verbatim>\<open>integer\<close> for content whose
  entries are all integers, missing entries being skipped or not as \<^verbatim>\<open>skipna\<close> says, and
  the least and greatest integer of an array.
\<close>

text \<open>
  Claim C8. \<^verbatim>\<open>_get_array_type\<close> resolves the type in two stages. When the alias lookup
  on \<^verbatim>\<open>str(x.dtype)\<close> gives a type other than \<^verbatim>\<open>Object\<close>, that type is the result, whatever
  the content. When it gives \<^verbatim>\<open>Object\<close>, the result is the type that
  \<^verbatim>\<open>from_pandas_api_type\<close> gives for the label inferred from the elements with
  \<^verbatim>\<open>skipna=True\<close>; so an object array whose content is labelled as integer, and that
  label mapped to \<^verbatim>\<open>PandasDtype.Int\<close>, resolves to \<^verbatim>\<open>PandasDtype.Int\<close>.
\<close>

theorem get_array_type_two_stage:
  "(from_str_alias lib (dtype x) = Inr dt \<longrightarrow> dt \<noteq> Object \<longrightarrow> get_array_type lib x = Inr dt)
   \<and> (from_str_alias lib (dtype x) = Inr Object \<longrightarrow>
        get_array_type lib x = from_pandas_api_type lib (infer_dtype lib x True))
   \<and> (from_str_alias lib (dtype x) = Inr Object \<longrightarrow>
      from_pandas_api_type lib (infer_dtype lib x True) = Inr PInt \<longrightarrow>
        get_array_type lib x = Inr PInt)"
  by (simp add: get_array_type_def)

theorem get_array_type_two_stage_witness:
  "get_array_type
      \<lparr>from_str_alias = (\<lambda>s. if s = ''object'' then Inr Object
                                   else if s = ''int64'' then Inr Int64
                                   else if s = ''category'' then Inr Category
                                   else Inl TypeError),
            from_pandas_api_type = (\<lambda>s. if s = ''integer'' then Inr PInt else Inr Object),
            infer_dtype = (\<lambda>x skipna.
               if list_all (\<lambda>v. case v of None \<Rightarrow> skipna | Some (AInt i) \<Rightarrow> True
                                 | Some (AStr s) \<Rightarrow> False) (vals x)
               then ''integer'' else ''mixed''),
            array_min = (\<lambda>x. Atom (AInt (Min (set [i. Some (AInt i) \<leftarrow> vals x])))),
            array_max = (\<lambda>x. Atom (AInt (Max (set [i. Some (AInt i) \<leftarrow> vals x]))))\<rparr>
      \<lparr>dtype = ''object'', vals = [Some (AInt 1), None, Some (AInt 2)],
            cat_categories = None, categories = None, array_name = Some ''n''\<rparr> = Inr PInt
   \<and> get_array_type
      \<lparr>from_str_alias = (\<lambda>s. if s = ''object'' then Inr Object
                                   else if s = ''int64'' then Inr Int64
                                   else if s = ''category'' then Inr Category
                                   else Inl TypeError),
            from_pandas_api_type = (\<lambda>s. if s = ''integer'' then Inr PInt else Inr Object),
            infer_dtype = (\<lambda>x skipna.
               if list_all (\<lambda>v. case v of None \<Rightarrow> skipna | Some (AInt i) \<Rightarrow> True
                                 | Some (AStr s) \<Rightarrow> False) (vals x)
               then ''integer'' else ''mixed''),
            array_min = (\<lambda>x. Atom (AInt (Min (set [i. Some (AInt i) \<leftarrow> vals x])))),
            array_max = (\<lambda>x. Atom (AInt (Max (set [i. Some (AInt i) \<leftarrow> vals x]))))\<rparr>
      \<lparr>dtype = ''int64'', vals = [Some (AInt 3), Some (AInt 8)],
            cat_categories = None, categories = None, array_name = Some ''k''\<rparr> = Inr Int64"
  using get_array_type_two_stage
          [of "\<lparr>from_str_alias = (\<lambda>s. if s = ''object'' then Inr Object
                                   else if s = ''int64'' then Inr Int64
                                   else if s = ''category'' then Inr Category
                                   else Inl TypeError),
            from_pandas_api_type = (\<lambda>s. if s = ''integer'' then Inr PInt else Inr Object),
            infer_dtype = (\<lambda>x skipna.
               if list_all (\<lambda>v. case v of None \<Rightarrow> skipna | Some (AInt i) \<Rightarrow> True
                                 | Some (AStr s) \<Rightarrow> False) (vals x)
               then ''integer'' else ''mixed''),
            array_min = (\<lambda>x. Atom (AInt (Min (set [i. Some (AInt i) \<leftarrow> vals x])))),
            array_max = (\<lambda>x. Atom (AInt (Max (set [i. Some (AInt i) \<leftarrow> vals x]))))\<rparr>"
              "\<lparr>dtype = ''object'', vals = [Some (AInt 1), None, Some (AInt 2)],
            cat_categories = None, categories = None, array_name = Some ''n''\<rparr>"]
        get_array_type_two_stage
          [of "\<lparr>from_str_alias = (\<lambda>s. if s = ''object'' then Inr Object
                                   else if s = ''int64'' then Inr Int64
                                   else if s = ''category'' then Inr Category
                                   else Inl TypeError),
            from_pandas_api_type = (\<lambda>s. if s = ''integer'' then Inr PInt else Inr Object),
            infer_dtype = (\<lambda>x skipna.
               if list_all (\<lambda>v. case v of None \<Rightarrow> skipna | Some (AInt i) \<Rightarrow> True
                                 | Some (AStr s) \<Rightarrow> False) (vals x)
               then ''integer'' else ''mixed''),
            array_min = (\<lambda>x. Atom (AInt (Min (set [i. Some (AInt i) \<leftarrow> vals x])))),
            array_max = (\<lambda>x. Atom (AInt (Max (set [i. Some (AInt i) \<leftarrow> vals x]))))\<rparr>"
              "\<lparr>dtype = ''int64'', vals = [Some (AInt 3), Some (AInt 8)],
            cat_categories = None, categories = None, array_name = Some ''k''\<rparr>" Int64]
  by simp

text \<open>
  Claim C7. For the type \<^verbatim>\<open>Category\<close> the statistics are the declared categories: those
  of \<^verbatim>\<open>x.cat.categories\<close> when the array has the accessor, those of \<^verbatim>\<open>x.categories\<close>
  otherwise. The elements present play no part. With the categories a, b, c declared
  and only a and b present, \<^verbatim>\<open>levels\<close> is a, b, c.
\<close>

theorem categorical_levels:
  "(cat_categories x = Some cs \<longrightarrow>
      get_array_check_statistics lib x Category = Inr (Some [''levels'' \<mapsto> Seq cs]))
   \<and> (cat_categories x = None \<longrightarrow> categories x = Some cs \<longrightarrow>
      get_array_check_statistics lib x Category = Inr (Some [''levels'' \<mapsto> Seq cs]))
   \<and> get_array_check_statistics lib (x\<lparr>vals := present\<rparr>) Category
       = get_array_check_statistics lib x Category"
  by (simp add: get_array_check_statistics_def Category_not_numeric dict_or_None_def
           split: option.splits)

theorem categorical_levels_witness:
  "get_array_check_statistics
      \<lparr>from_str_alias = (\<lambda>s. if s = ''object'' then Inr Object
                                   else if s = ''int64'' then Inr Int64
                                   else if s = ''category'' then Inr Category
                                   else Inl TypeError),
            from_pandas_api_type = (\<lambda>s. if s = ''integer'' then Inr PInt else Inr Object),
            infer_dtype = (\<lambda>x skipna.
               if list_all (\<lambda>v. case v of None \<Rightarrow> skipna | Some (AInt i) \<Rightarrow> True
                                 | Some (AStr s) \<Rightarrow> False) (vals x)
               then ''integer'' else ''mixed''),
            array_min = (\<lambda>x. Atom (AInt (Min (set [i. Some (AInt i) \<leftarrow> vals x])))),
            array_max = (\<lambda>x. Atom (AInt (Max (set [i. Some (AInt i) \<leftarrow> vals x]))))\<rparr>
      \<lparr>dtype = ''category'', vals = [Some (AStr ''a''), Some (AStr ''b'')],
            cat_categories = Some [AStr ''a'', AStr ''b'', AStr ''c''],
            categories = None, array_name = Some ''c''\<rparr> Category = Inr (Some [''levels'' \<mapsto> Seq [AStr ''a'', AStr ''b'', AStr ''c'']])
   \<and> get_array_check_statistics
      \<lparr>from_str_alias = (\<lambda>s. if s = ''object'' then Inr Object
                                   else if s = ''int64'' then Inr Int64
                                   else if s = ''category'' then Inr Category
                                   else Inl TypeError),
            from_pandas_api_type = (\<lambda>s. if s = ''integer'' then Inr PInt else Inr Object),
            infer_dtype = (\<lambda>x skipna.
               if list_all (\<lambda>v. case v of None \<Rightarrow> skipna | Some (AInt i) \<Rightarrow> True
                                 | Some (AStr s) \<Rightarrow> False) (vals x)
               then ''integer'' else ''mixed''),
            array_min = (\<lambda>x. Atom (AInt (Min (set [i. Some (AInt i) \<leftarrow> vals x])))),
            array_max = (\<lambda>x. Atom (AInt (Max (set [i. Some (AInt i) \<leftarrow> vals x]))))\<rparr>
      \<lparr>dtype = ''category'', vals = [Some (AStr ''a''), Some (AStr ''b'')],
            cat_categories = None,
            categories = Some [AStr ''a'', AStr ''b'', AStr ''c''], array_name = Some ''g''\<rparr> Category = Inr (Some [''levels'' \<mapsto> Seq [AStr ''a'', AStr ''b'', AStr ''c'']])"
  using categorical_levels
          [of "\<lparr>dtype = ''category'', vals = [Some (AStr ''a''), Some (AStr ''b'')],
            cat_categories = Some [AStr ''a'', AStr ''b'', AStr ''c''],
            categories = None, array_name = Some ''c''\<rparr>" "[AStr ''a'', AStr ''b'', AStr ''c'']"
              "\<lparr>from_str_alias = (\<lambda>s. if s = ''object'' then Inr Object
                                   else if s = ''int64'' then Inr Int64
                                   else if s = ''category'' then Inr Category
                                   else Inl TypeError),
            from_pandas_api_type = (\<lambda>s. if s = ''integer'' then Inr PInt else Inr Object),
            infer_dtype = (\<lambda>x skipna.
               if list_all (\<lambda>v. case v of None \<Rightarrow> skipna | Some (AInt i) \<Rightarrow> True
                                 | Some (AStr s) \<Rightarrow> False) (vals x)
               then ''integer'' else ''mixed''),
            array_min = (\<lambda>x. Atom (AInt (Min (set [i. Some (AInt i) \<leftarrow> vals x])))),
            array_max = (\<lambda>x. Atom (AInt (Max (set [i. Some (AInt i) \<leftarrow> vals x]))))\<rparr>"]
        categorical_levels
          [of "\<lparr>dtype = ''category'', vals = [Some (AStr ''a''), Some (AStr ''b'')],
            cat_categories = None,
            categories = Some [AStr ''a'', AStr ''b'', AStr ''c''], array_name = Some ''g''\<rparr>" "[AStr ''a'', AStr ''b'', AStr ''c'']"
              "\<lparr>from_str_alias = (\<lambda>s. if s = ''object'' then Inr Object
                                   else if s = ''int64'' then Inr Int64
                                   else if s = ''category'' then Inr Category
                                   else Inl TypeError),
            from_pandas_api_type = (\<lambda>s. if s = ''integer'' then Inr PInt else Inr Object),
            infer_dtype = (\<lambda>x skipna.
               if list_all (\<lambda>v. case v of None \<Rightarrow> skipna | Some (AInt i) \<Rightarrow> True
                                 | Some (AStr s) \<Rightarrow> False) (vals x)
               then ''integer'' else ''mixed''),
            array_min = (\<lambda>x. Atom (AInt (Min (set [i. Some (AInt i) \<leftarrow> vals x])))),
            array_max = (\<lambda>x. Atom (AInt (Max (set [i. Some (AInt i) \<leftarrow> vals x]))))\<rparr>"]
  by simp

text \<open>
  Claim C6. For a multi-index whose levels can each be inferred,
  \<^verbatim>\<open>infer_index_statistics\<close> returns one record per level, in the order of the levels,
  and emits no warning; for a single index, the list of its one record; for an object
  of another type, \<^verbatim>\<open>None\<close> and one warning. A data frame whose inference completes with
  some index also completes with an unrecognised one, with the same columns, the
  warning, and \<^verbatim>\<open>None\<close> for the index.
\<close>

theorem infer_index_statistics_cases:
  "(levels \<noteq> [] \<longrightarrow> (\<forall>l\<in>set levels. \<exists>st. index_stats lib l = Inr st) \<longrightarrow>
      (\<exists>sts. infer_index_statistics lib (MultiIndex levels) = Inr ([], Some sts)
            \<and> map (index_stats lib) levels = map Inr sts))
   \<and> (index_stats lib x = Inr st \<longrightarrow> infer_index_statistics lib (Index x) = Inr ([], Some [st]))
   \<and> infer_index_statistics lib (NotAnIndex ty)
       = Inr ([''index type '' @ ty @ '' not recognized, skipping index inference''], None)
   \<and> (infer_dataframe_statistics lib (df\<lparr>df_index := idx\<rparr>) = Inr (warned, stats) \<longrightarrow>
        infer_dataframe_statistics lib (df\<lparr>df_index := NotAnIndex ty\<rparr>)
          = Inr ([''index type '' @ ty @ '' not recognized, skipping index inference''],
                 stats\<lparr>index := None\<rparr>))"
proof -
  have multi: "\<exists>sts. infer_index_statistics lib (MultiIndex levels) = Inr ([], Some sts)
            \<and> map (index_stats lib) levels = map Inr sts"
    if ne: "levels \<noteq> []" and ok: "\<forall>l\<in>set levels. \<exists>st. index_stats lib l = Inr st"
  proof -
    from traverse_total[OF ok] obtain sts where t: "traverse (index_stats lib) levels = Inr sts"
      by blast
    then have m: "map (index_stats lib) levels = map Inr sts" by (simp add: traverse_Inr_map)
    with ne have "sts \<noteq> []" by auto
    with t m show ?thesis by (simp add: infer_index_statistics_def list_or_None_def)
  qed
  have single: "infer_index_statistics lib (Index x) = Inr ([], Some [st])"
    if "index_stats lib x = Inr st"
    using that by (simp add: infer_index_statistics_def list_or_None_def)
  have other: "infer_index_statistics lib (NotAnIndex ty)
       = Inr ([''index type '' @ ty @ '' not recognized, skipping index inference''], None)"
    by (simp add: infer_index_statistics_def list_or_None_def)
  have agg: "infer_dataframe_statistics lib (df\<lparr>df_index := NotAnIndex ty\<rparr>)
          = Inr ([''index type '' @ ty @ '' not recognized, skipping index inference''],
                 stats\<lparr>index := None\<rparr>)"
    if "infer_dataframe_statistics lib (df\<lparr>df_index := idx\<rparr>) = Inr (warned, stats)"
    using that unfolding infer_dataframe_statistics_def
    by (auto simp: other split: sum.splits)
  from multi single other agg show ?thesis by blast
qed

theorem infer_index_statistics_cases_witness:
  "infer_index_statistics
      \<lparr>from_str_alias = (\<lambda>s. if s = ''object'' then Inr Object
                                   else if s = ''int64'' then Inr Int64
                                   else if s = ''category'' then Inr Category
                                   else Inl TypeError),
            from_pandas_api_type = (\<lambda>s. if s = ''integer'' then Inr PInt else Inr Object),
            infer_dtype = (\<lambda>x skipna.
               if list_all (\<lambda>v. case v of None \<Rightarrow> skipna | Some (AInt i) \<Rightarrow> True
                                 | Some (AStr s) \<Rightarrow> False) (vals x)
               then ''integer'' else ''mixed''),
            array_min = (\<lambda>x. Atom (AInt (Min (set [i. Some (AInt i) \<leftarrow> vals x])))),
            array_max = (\<lambda>x. Atom (AInt (Max (set [i. Some (AInt i) \<leftarrow> vals x]))))\<rparr>
      (MultiIndex [\<lparr>dtype = ''int64'', vals = [Some (AInt 3), Some (AInt 8)],
            cat_categories = None, categories = None, array_name = Some ''k''\<rparr>,
                   \<lparr>dtype = ''category'', vals = [Some (AStr ''a''), Some (AStr ''b'')],
            cat_categories = None,
            categories = Some [AStr ''a'', AStr ''b'', AStr ''c''], array_name = Some ''g''\<rparr>])
     = Inr ([], Some [\<lparr>pandas_dtype = Int64, nullable = False,
             checks = Some [''min'' \<mapsto> Atom (AInt 3), ''max'' \<mapsto> Atom (AInt 8)],
             series_name = Some ''k''\<rparr>,
                      \<lparr>pandas_dtype = Category, nullable = False,
             checks = Some [''levels'' \<mapsto> Seq [AStr ''a'', AStr ''b'', AStr ''c'']],
             series_name = Some ''g''\<rparr>])
   \<and> infer_index_statistics
      \<lparr>from_str_alias = (\<lambda>s. if s = ''object'' then Inr Object
                                   else if s = ''int64'' then Inr Int64
                                   else if s = ''category'' then Inr Category
                                   else Inl TypeError),
            from_pandas_api_type = (\<lambda>s. if s = ''integer'' then Inr PInt else Inr Object),
            infer_dtype = (\<lambda>x skipna.
               if list_all (\<lambda>v. case v of None \<Rightarrow> skipna | Some (AInt i) \<Rightarrow> True
                                 | Some (AStr s) \<Rightarrow> False) (vals x)
               then ''integer'' else ''mixed''),
            array_min = (\<lambda>x. Atom (AInt (Min (set [i. Some (AInt i) \<leftarrow> vals x])))),
            array_max = (\<lambda>x. Atom (AInt (Max (set [i. Some (AInt i) \<leftarrow> vals x]))))\<rparr>
      (Index \<lparr>dtype = ''int64'', vals = [Some (AInt 3), Some (AInt 8)],
            cat_categories = None, categories = None, array_name = Some ''k''\<rparr>)
     = Inr ([], Some [\<lparr>pandas_dtype = Int64, nullable = False,
             checks = Some [''min'' \<mapsto> Atom (AInt 3), ''max'' \<mapsto> Atom (AInt 8)],
             series_name = Some ''k''\<rparr>])
   \<and> infer_dataframe_statistics
      \<lparr>from_str_alias = (\<lambda>s. if s = ''object'' then Inr Object
                                   else if s = ''int64'' then Inr Int64
                                   else if s = ''category'' then Inr Category
                                   else Inl TypeError),
            from_pandas_api_type = (\<lambda>s. if s = ''integer'' then Inr PInt else Inr Object),
            infer_dtype = (\<lambda>x skipna.
               if list_all (\<lambda>v. case v of None \<Rightarrow> skipna | Some (AInt i) \<Rightarrow> True
                                 | Some (AStr s) \<Rightarrow> False) (vals x)
               then ''integer'' else ''mixed''),
            array_min = (\<lambda>x. Atom (AInt (Min (set [i. Some (AInt i) \<leftarrow> vals x])))),
            array_max = (\<lambda>x. Atom (AInt (Max (set [i. Some (AInt i) \<leftarrow> vals x]))))\<rparr>
      \<lparr>df_columns = [(''k'', \<lparr>dtype = ''int64'', vals = [Some (AInt 3), Some (AInt 8)],
            cat_categories = None, categories = None, array_name = Some ''k''\<rparr>)], df_index = NotAnIndex ''list''\<rparr>
     = Inr ([''index type list not recognized, skipping index inference''],
            \<lparr>columns = Some [(''k'', \<lparr>pandas_dtype = Int64, nullable = False,
             checks = Some [''min'' \<mapsto> Atom (AInt 3), ''max'' \<mapsto> Atom (AInt 8)]\<rparr>)], index = None\<rparr>)"
proof -
  let ?lib = "\<lparr>from_str_alias = (\<lambda>s. if s = ''object'' then Inr Object
                                   else if s = ''int64'' then Inr Int64
                                   else if s = ''category'' then Inr Category
                                   else Inl TypeError),
            from_pandas_api_type = (\<lambda>s. if s = ''integer'' then Inr PInt else Inr Object),
            infer_dtype = (\<lambda>x skipna.
               if list_all (\<lambda>v. case v of None \<Rightarrow> skipna | Some (AInt i) \<Rightarrow> True
                                 | Some (AStr s) \<Rightarrow> False) (vals x)
               then ''integer'' else ''mixed''),
            array_min = (\<lambda>x. Atom (AInt (Min (set [i. Some (AInt i) \<leftarrow> vals x])))),
            array_max = (\<lambda>x. Atom (AInt (Max (set [i. Some (AInt i) \<leftarrow> vals x]))))\<rparr>"
  let ?xint = "\<lparr>dtype = ''int64'', vals = [Some (AInt 3), Some (AInt 8)],
            cat_categories = None, categories = None, array_name = Some ''k''\<rparr>"
  let ?xcix = "\<lparr>dtype = ''category'', vals = [Some (AStr ''a''), Some (AStr ''b'')],
            cat_categories = None,
            categories = Some [AStr ''a'', AStr ''b'', AStr ''c''], array_name = Some ''g''\<rparr>"
  let ?rint = "\<lparr>pandas_dtype = Int64, nullable = False,
             checks = Some [''min'' \<mapsto> Atom (AInt 3), ''max'' \<mapsto> Atom (AInt 8)],
             series_name = Some ''k''\<rparr>"
  let ?rcix = "\<lparr>pandas_dtype = Category, nullable = False,
             checks = Some [''levels'' \<mapsto> Seq [AStr ''a'', AStr ''b'', AStr ''c'']],
             series_name = Some ''g''\<rparr>"
  have s1: "index_stats ?lib ?xint = Inr ?rint"
    by (simp add: index_stats_def get_array_type_def get_array_check_statistics_def
                  NUMERIC_DTYPES_def dict_or_None_def isna_any_def)
  have s2: "index_stats ?lib ?xcix = Inr ?rcix"
    by (simp add: index_stats_def get_array_type_def get_array_check_statistics_def
                  NUMERIC_DTYPES_def dict_or_None_def isna_any_def)
  have df: "infer_dataframe_statistics ?lib
              (\<lparr>df_columns = [(''k'', ?xint)], df_index = NotAnIndex ''list''\<rparr>
                 \<lparr>df_index := Index ?xint\<rparr>)
            = Inr ([], \<lparr>columns = Some [(''k'', \<lparr>pandas_dtype = Int64, nullable = False,
             checks = Some [''min'' \<mapsto> Atom (AInt 3), ''max'' \<mapsto> Atom (AInt 8)]\<rparr>)], index = Some [?rint]\<rparr>)"
    using s1
    by (simp add: infer_dataframe_statistics_def infer_index_statistics_def list_or_None_def
                  get_array_type_def get_array_check_statistics_def
                  NUMERIC_DTYPES_def dict_or_None_def isna_any_def)
  note t = infer_index_statistics_cases
  have a: "infer_index_statistics ?lib (MultiIndex [?xint, ?xcix]) = Inr ([], Some [?rint, ?rcix])"
  proof -
    have "\<forall>l\<in>set [?xint, ?xcix]. \<exists>st. index_stats ?lib l = Inr st"
      using s1 s2 by simp
    with t [where levels = "[?xint, ?xcix]" and lib = ?lib] obtain sts where
      r: "infer_index_statistics ?lib (MultiIndex [?xint, ?xcix]) = Inr ([], Some sts)"
      and m: "map (index_stats ?lib) [?xint, ?xcix] = map Inr sts"
      by blast
    from m s1 s2 have "sts = [?rint, ?rcix]" by auto
    with r show ?thesis by simp
  qed
  have b: "infer_index_statistics ?lib (Index ?xint) = Inr ([], Some [?rint])"
    using t [where lib = ?lib and x = ?xint and st = ?rint] s1 by blast
  have c: "infer_dataframe_statistics ?lib
             \<lparr>df_columns = [(''k'', ?xint)], df_index = NotAnIndex ''list''\<rparr>
           = Inr ([''index type list not recognized, skipping index inference''],
                  \<lparr>columns = Some [(''k'', \<lparr>pandas_dtype = Int64, nullable = False,
             checks = Some [''min'' \<mapsto> Atom (AInt 3), ''max'' \<mapsto> Atom (AInt 8)]\<rparr>)], index = None\<rparr>)"
    using t [where lib = ?lib and ty = "''list''"
               and df = "\<lparr>df_columns = [(''k'', ?xint)], df_index = NotAnIndex ''list''\<rparr>"
               and idx = "Index ?xint" and warned = "[]"
               and stats = "\<lparr>columns = Some [(''k'', \<lparr>pandas_dtype = Int64, nullable = False,
             checks = Some [''min'' \<mapsto> Atom (AInt 3), ''max'' \<mapsto> Atom (AInt 8)]\<rparr>)], index = Some [?rint]\<rparr>"] df
    by simp
  from a b c show ?thesis by blast
qed

text \<open>
  Absence instead of emptiness on the inference side: the two helpers of the idiom
  never return an empty container, and a data frame without columns gets \<^verbatim>\<open>None\<close> for
  its columns (line 61).
\<close>

lemma infer_dataframe_statistics_no_columns:
  "infer_dataframe_statistics lib \<lparr>df_columns = [], df_index = NotAnIndex ty\<rparr>
     = Inr ([''index type '' @ ty @ '' not recognized, skipping index inference''],
            \<lparr>columns = None, index = None\<rparr>)"
  by (simp add: infer_dataframe_statistics_def infer_index_statistics_def list_or_None_def)

lemma or_None_never_empty:
  "dict_or_None d \<noteq> Some Map.empty" "list_or_None xs \<noteq> Some []"
  by (simp_all add: dict_or_None_def list_or_None_def)

text \<open>
  Claim C3, at the input where the code departs from it.
  \<^verbatim>\<open>get_dataframe_schema_statistics\<close> stores the dict of the columns as it was built
  (lines 122 to 129), without the conversion of line 61: for a schema without columns
  the columns are the empty dict, not \<^verbatim>\<open>None\<close>. In the same way a multi-index schema
  without components gives the empty list for the index (lines 155 to 158).
\<close>

theorem get_dataframe_schema_statistics_empty:
  "get_dataframe_schema_statistics \<lparr>schema_columns = [], schema_index = None\<rparr>
     = Inr \<lparr>columns = Some [], index = None\<rparr>
   \<and> get_dataframe_schema_statistics \<lparr>schema_columns = [], schema_index = Some (MultiIndexSchema [])\<rparr>
     = Inr \<lparr>columns = Some [], index = Some []\<rparr>"
  by (simp add: get_dataframe_schema_statistics_def get_index_schema_statistics_def)

end
